theory Spec2Isabelle
  imports Complex_Main "HOL-Library.Sublist"
begin

section \<open>Data model of task2.py\<close>

text \<open>
  The coordinator \<^verbatim>\<open>RaspberryPi\<close> of \<^verbatim>\<open>src/task2.py\<close> shares one block of state between
  its processes and threads. The record below holds the fields of \<^verbatim>\<open>__init__\<close> that the
  verified operations read or write, and five traces: the messages given to
  \<^verbatim>\<open>stm_link.send\<close>, the commands given to \<^verbatim>\<open>command_queue.put\<close>, the calls of the
  logger, the HTTP requests and the number of camera captures.

  \<^verbatim>\<open>total_xdist\<close> and \<^verbatim>\<open>between_obstacles_ydist\<close> are \<^verbatim>\<open>Value('i')\<close>, a C int that
  wraps around on assignment; \<^verbatim>\<open>compensate_ydist\<close> is \<^verbatim>\<open>Value('f')\<close>, a C float.
  \<^verbatim>\<open>robot_mode\<close> is a value of the manager and holds a Python integer.
\<close>

datatype level = DEBUG | INFO | WARNING | ERROR

text \<open>The value of an \<^verbatim>\<open>AndroidMessage\<close>: a text, or the location dictionary x, y, d.\<close>

datatype payload = Text string | Location int int int

datatype AndroidMessage = AndroidMessage string payload

datatype PiAction = PiAction (cat: string) (val: string)

text \<open>An entry of \<^verbatim>\<open>path_queue\<close>: the dictionary with the keys x, y, d and s.\<close>

record waypoint =
  wp_x :: int
  wp_y :: int
  wp_d :: int
  wp_s :: int

text \<open>
  The exceptions the modelled code can raise: the release of an unlocked lock
  (\<^verbatim>\<open>RuntimeError\<close>), \<^verbatim>\<open>queue.Empty\<close> of \<^verbatim>\<open>get_nowait\<close>, the \<^verbatim>\<open>ValueError\<close> of \<^verbatim>\<open>max\<close> on
  an empty list, and the plain \<^verbatim>\<open>Exception\<close> of \<^verbatim>\<open>command_follower\<close>. All of them are
  subclasses of \<^verbatim>\<open>Exception\<close>.
\<close>

datatype exn = RuntimeError string | QueueEmpty | ValueError string | Exception string

text \<open>
  A value decoded from the JSON answer of the classification service (the field
  \<^verbatim>\<open>image_id\<close>), or \<^verbatim>\<open>None\<close> when \<^verbatim>\<open>snap_and_rec_2\<close> returned early.
\<close>

datatype jvalue = JStr string | JNum int | JNone

record rpi =
  robot_mode :: int
  unpause :: bool
  movement_lock :: bool
  android_queue :: "AndroidMessage list"
  rpi_action_queue :: "PiAction list"
  command_queue :: "string list"
  path_queue :: "waypoint list"
  ultrasonic_is_clear :: int
  total_xdist :: int
  compensate_ydist :: real
  between_obstacles_ydist :: int
  stm_sent :: "string list"
  command_puts :: "string list"
  logged :: "(level \<times> string) list"
  http_requests :: "string list"
  camera_captures :: nat

text \<open>
  The state after \<^verbatim>\<open>__init__\<close>: manual mode, both events clear, the lock free
  (\<^const>\<open>movement_lock\<close> is \<^const>\<open>True\<close> while the lock is held), empty queues, the
  ultrasonic flag clear.
\<close>

definition rpi_init :: rpi where
  "rpi_init = \<lparr> robot_mode = 0, unpause = False, movement_lock = False,
     android_queue = [], rpi_action_queue = [], command_queue = [], path_queue = [],
     ultrasonic_is_clear = 1, total_xdist = 0, compensate_ydist = 0,
     between_obstacles_ydist = 0, stm_sent = [], command_puts = [], logged = [], http_requests = [],
     camera_captures = 0 \<rparr>"

subsection \<open>Primitive operations on the shared state\<close>

definition log_msg :: "level \<Rightarrow> string \<Rightarrow> rpi \<Rightarrow> rpi" where
  "log_msg l m s = s\<lparr>logged := logged s @ [(l, m)]\<rparr>"

definition android_put :: "AndroidMessage \<Rightarrow> rpi \<Rightarrow> rpi" where
  "android_put m s = s\<lparr>android_queue := android_queue s @ [m]\<rparr>"

definition command_put :: "string \<Rightarrow> rpi \<Rightarrow> rpi" where
  "command_put c s =
     s\<lparr>command_queue := command_queue s @ [c], command_puts := command_puts s @ [c]\<rparr>"

definition action_put :: "PiAction \<Rightarrow> rpi \<Rightarrow> rpi" where
  "action_put a s = s\<lparr>rpi_action_queue := rpi_action_queue s @ [a]\<rparr>"

definition stm_send :: "string \<Rightarrow> rpi \<Rightarrow> rpi" where
  "stm_send c s = s\<lparr>stm_sent := stm_sent s @ [c]\<rparr>"

text \<open>
  \<^verbatim>\<open>movement_lock.release()\<close>: releasing a lock that nobody holds raises
  \<^verbatim>\<open>RuntimeError\<close>; the state is returned with the exception.
\<close>

definition lock_release :: "rpi \<Rightarrow> (exn \<times> rpi) + rpi" where
  "lock_release s =
     (if movement_lock s then Inr (s\<lparr>movement_lock := False\<rparr>)
      else Inl (RuntimeError ''release unlocked lock'', s))"

text \<open>
  The value that a \<^verbatim>\<open>Value('i')\<close> holds after the assignment of a Python integer: the
  32-bit two's complement wrap-around of the C int.
\<close>

definition c_int :: "int \<Rightarrow> int" where
  "c_int n = (n + 2147483648) mod 4294967296 - 2147483648"

text \<open>\<^verbatim>\<open>clear_queues\<close>: both loops run until their queue is empty.\<close>

definition clear_queues :: "rpi \<Rightarrow> rpi" where
  "clear_queues s = s\<lparr>command_queue := [], path_queue := []\<rparr>"

section \<open>The ultrasonic flag: set_us_flag\<close>

text \<open>
  One pass of the loop of \<^verbatim>\<open>set_us_flag\<close> for the sample \<open>reading\<close> (\<^verbatim>\<open>dist\<close> in
  the source), on the local counter \<^verbatim>\<open>obstacle_count_short\<close> and the shared state.
  Distances are real numbers here: the loop only compares the sample with 28.0. The
  assignment to \<^verbatim>\<open>compensate_ydist.value\<close> converts the sample to the 32-bit C float of
  \<^verbatim>\<open>Value('f')\<close>; this conversion is the parameter \<open>c_float\<close>.
\<close>

definition set_us_flag_iter :: "(real \<Rightarrow> real) \<Rightarrow> real \<Rightarrow> int \<times> rpi \<Rightarrow> int \<times> rpi" where
  "set_us_flag_iter c_float reading cs =
     (let s1 = (snd cs)\<lparr>compensate_ydist := c_float reading\<rparr>;
          (obstacle_count_short, s2) =
             (if reading \<le> 28.0 then (fst cs + 1, s1)
              else (0, s1\<lparr>ultrasonic_is_clear := 1\<rparr>))
      in (obstacle_count_short,
          if obstacle_count_short = 2 then s2\<lparr>ultrasonic_is_clear := 0\<rparr> else s2))"

text \<open>The thread started on the state \<open>s\<close>, after the samples \<open>samples\<close> in this order.\<close>

definition set_us_flag :: "(real \<Rightarrow> real) \<Rightarrow> real list \<Rightarrow> rpi \<Rightarrow> int \<times> rpi" where
  "set_us_flag c_float samples s =
     foldl (\<lambda>cs reading. set_us_flag_iter c_float reading cs) (0, s) samples"

text \<open>The number of the most recent samples in a row that are at or below 28.0.\<close>

definition recent_close :: "real list \<Rightarrow> nat" where
  "recent_close samples = length (takeWhile (\<lambda>reading. reading \<le> 28.0) (rev samples))"

section \<open>Clearing the first obstacle\<close>

text \<open>\<^verbatim>\<open>clear_first_obstacle\<close>: the three branches, each clearing the queues first.\<close>

definition clear_first_obstacle :: "jvalue \<Rightarrow> rpi \<Rightarrow> rpi" where
  "clear_first_obstacle first_arrow_dir s =
     (if first_arrow_dir = JStr ''38'' then
        foldl (\<lambda>t c. command_put c t) (clear_queues s) [''FR30'', ''FL30'', ''FL30'', ''FR30'']
      else if first_arrow_dir = JStr ''39'' then
        foldl (\<lambda>t c. command_put c t) (clear_queues s) [''FL30'', ''FR30'', ''FR30'', ''FL30'']
      else
        foldl (\<lambda>t c. command_put c t) (clear_queues s) [''FR30'', ''FL30'', ''FL30'', ''FR30''])"

section \<open>The acknowledgement listener: recv_stm\<close>

text \<open>
  The body of the \<^verbatim>\<open>try\<close> block of \<^verbatim>\<open>recv_stm\<close>, run for a message that starts with
  "ACK". An exception leaves the block with the state reached so far.
\<close>

definition recv_stm_ack :: "string \<Rightarrow> rpi \<Rightarrow> (exn \<times> rpi) + rpi" where
  "recv_stm_ack message s =
     (case lock_release s of
        Inl e \<Rightarrow> Inl e
      | Inr s1 \<Rightarrow>
          (let s2 = log_msg DEBUG ''ACK from STM32 received, movement lock released.'' s1 in
           if robot_mode s2 = 1 then
             (case path_queue s2 of
                [] \<Rightarrow> Inl (QueueEmpty, s2)
              | temp # rest \<Rightarrow>
                  Inr (android_put
                        (AndroidMessage ''location'' (Location (wp_x temp) (wp_y temp) (wp_d temp)))
                        (s2\<lparr>path_queue := rest\<rparr>)))
           else if message = ''ACK|X'' then
             Inr (android_put (AndroidMessage ''status'' (Text ''finished''))
                   (android_put (AndroidMessage ''info'' (Text ''Robot has completed fastest car!''))
                     (log_msg DEBUG ''Fastest car ACK received from STM32!'' s2)))
           else Inr s2))"

text \<open>
  One pass of the loop of \<^verbatim>\<open>recv_stm\<close> for the received \<open>message\<close>. The handler
  \<^verbatim>\<open>except Exception\<close> catches every exception of the block and logs one warning. The
  result is \<open>Inl\<close> when an exception leaves the pass, which ends the listener.
\<close>

definition recv_stm_iter :: "string \<Rightarrow> rpi \<Rightarrow> (exn \<times> rpi) + rpi" where
  "recv_stm_iter message s =
     (if prefix ''ACK'' message then
        (case recv_stm_ack message s of
           Inl (e, t) \<Rightarrow> Inr (log_msg WARNING ''Tried to release a released lock!'' t)
         | Inr t \<Rightarrow> Inr t)
      else Inr (log_msg WARNING (''Ignored unknown message from STM: '' @ message) s))"

section \<open>The command sequencer: command_follower\<close>

definition stm32_prefixes :: "string list" where
  "stm32_prefixes = [''FS'', ''BS'', ''FW'', ''BW'', ''FL'', ''FR'', ''BL'', ''BR'', ''TL'', ''TR'',
     ''IR'', ''A'', ''C'', ''DT'', ''STOP'', ''ZZ'']"

text \<open>\<^verbatim>\<open>command.startswith(stm32_prefixes)\<close>: some prefix of the tuple starts the command.\<close>

definition is_stm32 :: "string \<Rightarrow> bool" where
  "is_stm32 command = list_ex (\<lambda>p. prefix p command) stm32_prefixes"

text \<open>
  \<^verbatim>\<open>text.replace(pat, "")\<close> for a non-empty \<open>pat\<close>: every occurrence, found from left to
  right without overlap, is removed.
\<close>

fun remove_substr :: "string \<Rightarrow> string \<Rightarrow> string" where
  "remove_substr pat [] = []"
| "remove_substr pat (c # cs) =
     (if pat \<noteq> [] \<and> prefix pat (c # cs) then remove_substr pat (drop (length pat) (c # cs))
      else c # remove_substr pat cs)"

text \<open>
  The branches of \<^verbatim>\<open>command_follower\<close> after \<^verbatim>\<open>movement_lock.acquire()\<close>, for the command
  taken from the queue. \<^verbatim>\<open>unpause.clear()\<close> writes the event; nothing in the program waits
  for it or reads it (the call \<^verbatim>\<open>self.unpause.wait()\<close> of the loop is commented out).
\<close>

definition command_follower_dispatch :: "string \<Rightarrow> rpi \<Rightarrow> (exn \<times> rpi) + rpi" where
  "command_follower_dispatch command s =
     (if is_stm32 command then Inr (stm_send command s)
      else if prefix ''WN'' command then
        Inr (android_put (AndroidMessage ''info'' (Text ''Starting robot on fastest car!''))
              (android_put (AndroidMessage ''status'' (Text ''running'')) s))
      else if prefix ''SNAP'' command then
        Inr (action_put (PiAction ''snap'' (remove_substr ''SNAP'' command)) s)
      else if prefix ''MANSNAP'' command then
        Inr (action_put (PiAction ''snap'' ''99'') s)
      else if prefix ''NOOP'' command then lock_release s
      else if command = ''FIN'' then
        (case lock_release ((stm_send ''ZZ01'' s)\<lparr>unpause := False\<rparr>) of
           Inl e \<Rightarrow> Inl e
         | Inr s1 \<Rightarrow>
             Inr (action_put (PiAction ''stitch'' [])
                   (android_put (AndroidMessage ''status'' (Text ''finished''))
                     (android_put (AndroidMessage ''info'' (Text ''Commands queue finished.''))
                       (log_msg INFO ''Commands queue finished.'' s1)))))
      else Inl (Exception (''Unknown command: '' @ command), s))"

text \<open>The closed vocabulary: the conditions of the branches above, in one predicate.\<close>

definition in_vocabulary :: "string \<Rightarrow> bool" where
  "in_vocabulary command =
     (is_stm32 command \<or> prefix ''WN'' command \<or> prefix ''SNAP'' command \<or>
      prefix ''MANSNAP'' command \<or> prefix ''NOOP'' command \<or> command = ''FIN'')"


section \<open>The action dispatcher: rpi_action\<close>

text \<open>
  \<^verbatim>\<open>str.title()\<close> on ASCII text: the first letter of each run of letters in upper case,
  the other letters in lower case.
\<close>

definition is_lower :: "char \<Rightarrow> bool" where
  "is_lower c = (97 \<le> (of_char c :: nat) \<and> (of_char c :: nat) \<le> 122)"

definition is_upper :: "char \<Rightarrow> bool" where
  "is_upper c = (65 \<le> (of_char c :: nat) \<and> (of_char c :: nat) \<le> 90)"

fun title_from :: "bool \<Rightarrow> string \<Rightarrow> string" where
  "title_from in_word [] = []"
| "title_from in_word (c # cs) =
     (if is_lower c then
        (if in_word then c else char_of ((of_char c :: nat) - 32)) # title_from True cs
      else if is_upper c then
        (if in_word then char_of ((of_char c :: nat) + 32) else c) # title_from True cs
      else c # title_from False cs)"

definition title :: "string \<Rightarrow> string" where
  "title t = title_from False t"

text \<open>
  \<^verbatim>\<open>change_mode\<close>. The release of the lock stands in its own \<^verbatim>\<open>try\<close> block, whose
  handler logs a warning.
\<close>

definition change_mode :: "string \<Rightarrow> rpi \<Rightarrow> rpi" where
  "change_mode new_mode s =
     (if new_mode = ''manual'' \<and> robot_mode s = 0 then
        log_msg WARNING ''Robot already in Manual mode.''
          (android_put (AndroidMessage ''error'' (Text ''Robot already in Manual mode.'')) s)
      else if new_mode = ''path'' \<and> robot_mode s = 1 then
        log_msg WARNING ''Robot already in Path mode.''
          (android_put (AndroidMessage ''error'' (Text ''Robot already in Path mode.'')) s)
      else
        (let s1 = clear_queues (s\<lparr>robot_mode := (if new_mode = ''manual'' then 0 else 1)\<rparr>);
             s2 = s1\<lparr>unpause := (new_mode = ''manual'')\<rparr>;
             s3 = (case lock_release s2 of
                     Inl (e, t) \<Rightarrow> log_msg WARNING ''Tried to release a released lock!'' t
                   | Inr t \<Rightarrow> t);
             note = ''Robot is now in '' @ title new_mode @ '' mode.''
         in stm_send ''ZZ01'' (log_msg INFO note (android_put (AndroidMessage ''info'' (Text note)) s3))))"

text \<open>\<^verbatim>\<open>add_navigate_path\<close>: the fixed path, one placeholder waypoint for each command.\<close>

definition navigate_path :: "string list" where
  "navigate_path = [''DT20'', ''SNAPS'', ''NOOP'',
     ''FR00'', ''FL00'', ''FW30'', ''BR00'', ''FW10'', ''SNAPE'', ''NOOP'',
     ''FR00'', ''FL00'', ''FW30'', ''BR00'', ''FW10'', ''SNAPN'', ''NOOP'',
     ''FR00'', ''FL00'', ''FW30'', ''BR00'', ''FW10'', ''SNAPW'', ''NOOP'',
     ''FIN'']"

definition add_navigate_path :: "rpi \<Rightarrow> rpi" where
  "add_navigate_path s =
     (let s1 = foldl (\<lambda>t c. (command_put c t)\<lparr>path_queue := path_queue t @
                   [\<lparr>wp_x = 1, wp_y = 1, wp_d = 0, wp_s = - 1\<rparr>]\<rparr>) (clear_queues s) navigate_path
      in android_put
           (AndroidMessage ''info'' (Text ''Navigate-around-obstacle path loaded. Robot is ready to move.''))
           (log_msg INFO ''Navigate-around-obstacle path loaded. Robot is ready to move.'' s1))"

text \<open>
  \<^verbatim>\<open>request_stitch\<close>, for the status code \<open>status\<close> that the stitch endpoint answers.
\<close>

definition request_stitch :: "nat \<Rightarrow> rpi \<Rightarrow> rpi" where
  "request_stitch status s =
     (let s1 = s\<lparr>http_requests := http_requests s @ [''GET /stitch'']\<rparr> in
      if status \<noteq> 200 then
        log_msg ERROR ''Something went wrong when requesting stitch from the API.''
          (android_put (AndroidMessage ''error''
             (Text ''Something went wrong when requesting stitch from the API.'')) s1)
      else android_put (AndroidMessage ''info'' (Text ''Images stitched!''))
             (log_msg INFO ''Images stitched!'' s1))"

text \<open>
  One pass of the loop of \<^verbatim>\<open>rpi_action\<close>: \<open>None\<close> while the action queue is empty (the
  \<^verbatim>\<open>get\<close> blocks), else the state after the action at its head.
\<close>

definition rpi_action_iter :: "nat \<Rightarrow> rpi \<Rightarrow> rpi option" where
  "rpi_action_iter status s =
     (case rpi_action_queue s of
        [] \<Rightarrow> None
      | action # rest \<Rightarrow>
          (let s1 = log_msg DEBUG
                      (''PiAction retrieved from queue: '' @ cat action @ '' '' @ val action)
                      (s\<lparr>rpi_action_queue := rest\<rparr>)
           in if cat action = ''mode'' then Some (change_mode (val action) s1)
              else if cat action = ''single-obstacle'' then Some (add_navigate_path s1)
              else if cat action = ''stitch'' then Some (request_stitch status s1)
              else Some s1))"

section \<open>The processes side by side\<close>

text \<open>
  Where \<^verbatim>\<open>command_follower\<close> stands in its loop: blocked in \<^verbatim>\<open>command_queue.get()\<close>,
  holding a command before \<^verbatim>\<open>movement_lock.acquire()\<close>, holding the command and the lock
  before the branches, or ended by an exception.
\<close>

datatype follower = Waiting | Fetched string | Holding string | Terminated exn

text \<open>
  Modelled from the spec: the motor controller behind \<^verbatim>\<open>stm_link\<close> is missing from the
  sources. By the spec's glossary an acknowledgement confirms a transmitted command.
  Accordingly the controller answers one "ACK" for every message transmitted to it, in
  the order of transmission: with \<open>sent\<close> the messages transmitted so far and \<open>n\<close> the
  number of acknowledgements it has given, it can acknowledge only while \<open>n\<close> is below
  the number of messages, and the result is the new count; \<open>None\<close> when there is nothing
  to acknowledge.
\<close>

definition controller_ack :: "string list \<Rightarrow> nat \<Rightarrow> nat option" where
  "controller_ack sent n = (if n < length sent then Some (Suc n) else None)"

text \<open>
  The shared state, the place of the sequencer, the exception that ended the
  acknowledgement listener (if any), the commands whose branches the sequencer has run (in
  this order), and the number of acknowledgements the controller has given.
\<close>

record system =
  shared :: rpi
  follower :: follower
  listener :: "exn option"
  handled :: "string list"
  acked :: nat

definition system_init :: system where
  "system_init =
     \<lparr> shared = rpi_init, follower = Waiting, listener = None, handled = [], acked = 0 \<rparr>"

text \<open>The messages in flight: transmitted to the controller and not yet acknowledged.\<close>

definition unacked :: "system \<Rightarrow> string list" where
  "unacked y = drop (acked y) (stm_sent (shared y))"

text \<open>
  The atomic steps of the processes: a producer puts a command or an action on its queue;
  the sequencer takes a command, acquires the lock, runs the branches; the listener
  receives a message from the controller; the action dispatcher handles one action (the
  number is the status code a stitch request would get); another task sends a buzzer
  code directly with \<^verbatim>\<open>stm_link.send\<close>, as \<^verbatim>\<open>start\<close>, \<^verbatim>\<open>reconnect_android\<close>,
  \<^verbatim>\<open>recv_android\<close> and \<^verbatim>\<open>fastest_car\<close> do ("ZZ02", "ZZ03", "ZZ04").
\<close>

datatype event =
    Put string
  | PutAction PiAction
  | FollowerGet
  | FollowerAcquire
  | FollowerDispatch
  | StmRecv string
  | RpiAction nat
  | DirectSend string

text \<open>
  One step; \<open>None\<close> when the process of the event cannot move (it is blocked or has
  ended, or the controller has nothing to acknowledge). An acknowledgement reaches the
  listener only when the controller gives one.
\<close>

fun step :: "event \<Rightarrow> system \<Rightarrow> system option" where
  "step (Put c) y = Some (y\<lparr>shared := command_put c (shared y)\<rparr>)"
| "step (PutAction a) y = Some (y\<lparr>shared := action_put a (shared y)\<rparr>)"
| "step FollowerGet y =
     (case follower y of
        Waiting \<Rightarrow>
          (case command_queue (shared y) of
             [] \<Rightarrow> None
           | c # q \<Rightarrow> Some (y\<lparr>shared := (shared y)\<lparr>command_queue := q\<rparr>, follower := Fetched c\<rparr>))
      | _ \<Rightarrow> None)"
| "step FollowerAcquire y =
     (case follower y of
        Fetched c \<Rightarrow>
          (if movement_lock (shared y) then None
           else Some (y\<lparr>shared := (shared y)\<lparr>movement_lock := True\<rparr>, follower := Holding c\<rparr>))
      | _ \<Rightarrow> None)"
| "step FollowerDispatch y =
     (case follower y of
        Holding c \<Rightarrow>
          (case command_follower_dispatch c (shared y) of
             Inl (e, t) \<Rightarrow>
               Some (y\<lparr>shared := t, follower := Terminated e, handled := handled y @ [c]\<rparr>)
           | Inr t \<Rightarrow>
               Some (y\<lparr>shared := t, follower := Waiting, handled := handled y @ [c]\<rparr>))
      | _ \<Rightarrow> None)"
| "step (StmRecv m) y =
     (if listener y \<noteq> None then None
      else
        (case (if prefix ''ACK'' m then controller_ack (stm_sent (shared y)) (acked y)
               else Some (acked y)) of
           None \<Rightarrow> None
         | Some n \<Rightarrow>
             (case recv_stm_iter m (shared y) of
                Inl (e, t) \<Rightarrow> Some (y\<lparr>shared := t, listener := Some e\<rparr>)
              | Inr t \<Rightarrow> Some (y\<lparr>shared := t, acked := n\<rparr>))))"
| "step (RpiAction status) y =
     (case rpi_action_iter status (shared y) of
        None \<Rightarrow> None
      | Some t \<Rightarrow> Some (y\<lparr>shared := t\<rparr>))"
| "step (DirectSend c) y = Some (y\<lparr>shared := stm_send c (shared y)\<rparr>)"

fun run :: "event list \<Rightarrow> system \<Rightarrow> system option" where
  "run [] y = Some y"
| "run (e # es) y = (case step e y of None \<Rightarrow> None | Some y' \<Rightarrow> run es y')"








section \<open>The navigation sequencer: fastest_car and its phases\<close>

subsection \<open>Measuring the gap between the obstacles\<close>

text \<open>Python's \<^verbatim>\<open>int\<close> of a float: truncation towards zero.\<close>

definition py_int :: "real \<Rightarrow> int" where
  "py_int r = (if 0 \<le> r then \<lfloor>r\<rfloor> else \<lceil>r\<rceil>)"

text \<open>\<^verbatim>\<open>max\<close> of a list: a \<^verbatim>\<open>ValueError\<close> on the empty list.\<close>

definition py_max :: "int list \<Rightarrow> exn + int" where
  "py_max xs =
     (case xs of
        [] \<Rightarrow> Inl (ValueError ''max() arg is an empty sequence'')
      | x # rest \<Rightarrow> Inr (foldl max x rest))"

text \<open>
  The loop \<^verbatim>\<open>for i in range(5)\<close> of \<^verbatim>\<open>fastest_car\<close>. Each pass reads
  \<^verbatim>\<open>compensate_ydist.value\<close> twice, once for the test and once for the value it appends,
  while the sensor thread may write it in between: \<open>readings i\<close> is the pair of values
  (of the C float) that pass \<open>i\<close> reads.
\<close>

definition gap_max_list :: "(nat \<Rightarrow> real \<times> real) \<Rightarrow> int list" where
  "gap_max_list readings =
     concat (map (\<lambda>i. if py_int (fst (readings i)) < 150 then [py_int (snd (readings i))] else [])
               [0..<5])"

text \<open>
  The gap phase of \<^verbatim>\<open>fastest_car\<close>: the loop, then the test
  \<^verbatim>\<open>max(max_list) is not None\<close> with its two branches, then the offset 70. A value that
  \<^verbatim>\<open>max\<close> returns is a number and never \<^verbatim>\<open>None\<close>.
\<close>

definition fastest_car_gap :: "(nat \<Rightarrow> real \<times> real) \<Rightarrow> rpi \<Rightarrow> (exn \<times> rpi) + rpi" where
  "fastest_car_gap readings s =
     (let max_list = gap_max_list readings in
      case py_max max_list of
        Inl e \<Rightarrow> Inl (e, s)
      | Inr m \<Rightarrow>
          (let s1 = (if Some m \<noteq> None then s\<lparr>between_obstacles_ydist := c_int m\<rparr>
                     else s\<lparr>between_obstacles_ydist := c_int 100\<rparr>)
           in Inr (s1\<lparr>between_obstacles_ydist := c_int (between_obstacles_ydist s1 + 70)\<rparr>)))"

subsection \<open>Forward commands for a stored distance\<close>

text \<open>The decimal digits of a natural number, and the format \<^verbatim>\<open>{n:02d}\<close> of an integer.\<close>

fun digits :: "nat \<Rightarrow> string" where
  "digits n =
     (if n < 10 then [''0123456789'' ! n]
      else digits (n div 10) @ [''0123456789'' ! (n mod 10)])"

declare digits.simps [simp del]

definition fmt_02d :: "int \<Rightarrow> string" where
  "fmt_02d n =
     (if n < 0 then CHR ''-'' # digits (nat (- n))
      else if n < 10 then CHR ''0'' # digits (nat n)
      else digits (nat n))"

definition fw_command :: "int \<Rightarrow> string" where
  "fw_command n = ''FW'' @ fmt_02d n"

text \<open>
  The cascade that \<^verbatim>\<open>return_home\<close> and the three branches of
  \<^verbatim>\<open>clear_second_obstacle_p2\<close> each write out for their distance: one command up to 99,
  else "FW99" and the rest, split once more when the rest is 99 or more.
\<close>

definition forward_in_chunks :: "int \<Rightarrow> rpi \<Rightarrow> rpi" where
  "forward_in_chunks distance s =
     (if distance \<le> 99 then command_put (''FW'' @ fmt_02d distance) s
      else
        (let s1 = command_put ''FW99'' s;
             remaining_xdist = distance - 99
         in if remaining_xdist < 99 then command_put (''FW'' @ fmt_02d remaining_xdist) s1
            else command_put (''FW'' @ fmt_02d (remaining_xdist - 99)) (command_put ''FW99'' s1)))"

text \<open>The magnitudes of the commands of the cascade.\<close>

definition fw_magnitudes :: "int \<Rightarrow> int list" where
  "fw_magnitudes distance =
     (if distance \<le> 99 then [distance]
      else if distance - 99 < 99 then [99, distance - 99]
      else [99, 99, distance - 99 - 99])"

text \<open>The start of \<^verbatim>\<open>return_home\<close>: the stored gap distance as forward commands.\<close>

definition return_home_gap :: "rpi \<Rightarrow> rpi" where
  "return_home_gap s = forward_in_chunks (between_obstacles_ydist s) s"

text \<open>
  \<^verbatim>\<open>clear_second_obstacle_p2\<close> up to its forward commands: the turn of the branch, the
  crossing distance from \<^verbatim>\<open>total_xdist\<close>, the cascade.
\<close>

definition doubled_xdist :: "rpi \<Rightarrow> int" where
  "doubled_xdist s = (total_xdist s * 2 + 30) + (if total_xdist s \<le> 20 then 20 else 0)"

definition clear_second_obstacle_p2_xaxis :: "jvalue \<Rightarrow> rpi \<Rightarrow> rpi" where
  "clear_second_obstacle_p2_xaxis second_arrow_dir s =
     (if second_arrow_dir = JStr ''38'' then
        forward_in_chunks (doubled_xdist s) (command_put ''FL30'' s)
      else if second_arrow_dir = JStr ''39'' then
        forward_in_chunks (doubled_xdist s) (command_put ''FR30'' s)
      else forward_in_chunks (doubled_xdist s) (command_put ''FL30'' s))"

text \<open>
  \<^verbatim>\<open>move_past_obstacle_irl\<close>, which accumulates \<^verbatim>\<open>total_xdist\<close> before the crossing. The
  list holds the values of \<^verbatim>\<open>ir_left_is_clear\<close> that the function reads, one for the first
  test and one for each pass of the loop; the result is \<open>None\<close> when the loop has not
  ended within them.
\<close>

fun irl_loop :: "int list \<Rightarrow> rpi \<Rightarrow> rpi option" where
  "irl_loop [] s = None"
| "irl_loop (flag # flags) s =
     (if flag = 0
      then irl_loop flags ((command_put ''FW10'' s)\<lparr>total_xdist := c_int (total_xdist s + 10)\<rparr>)
      else Some s)"

definition move_past_obstacle_irl :: "int list \<Rightarrow> rpi \<Rightarrow> rpi option" where
  "move_past_obstacle_irl flags s =
     (case flags of
        [] \<Rightarrow> None
      | flag # rest \<Rightarrow>
          (case irl_loop rest
                  (if flag = 0
                   then (command_put ''FW10'' (clear_queues s))
                          \<lparr>total_xdist := c_int (total_xdist s + 10)\<rparr>
                   else s) of
             None \<Rightarrow> None
           | Some s1 \<Rightarrow>
               Some ((command_put ''FW10'' s1)\<lparr>total_xdist := c_int (total_xdist s1 + 10)\<rparr>)))"

section \<open>Properties\<close>

subsection \<open>The ultrasonic flag\<close>

lemma set_us_flag_snoc:
  "set_us_flag c_float (samples @ [reading]) s =
     set_us_flag_iter c_float reading (set_us_flag c_float samples s)"
  by (simp add: set_us_flag_def)

lemma recent_close_snoc:
  "recent_close (samples @ [reading]) = (if reading \<le> 28 then Suc (recent_close samples) else 0)"
  by (simp add: recent_close_def)

lemma set_us_flag_run:
  "fst (set_us_flag c_float samples rpi_init) = int (recent_close samples) \<and>
   ultrasonic_is_clear (snd (set_us_flag c_float samples rpi_init)) =
     (if 2 \<le> recent_close samples then 0 else 1)"
proof (induction samples rule: rev_induct)
  case Nil
  show ?case by (simp add: set_us_flag_def recent_close_def rpi_init_def)
next
  case (snoc reading samples)
  then show ?case
    by (auto simp add: set_us_flag_snoc recent_close_snoc set_us_flag_iter_def Let_def
        split: prod.splits)
qed

text \<open>
  C2, as the code has it: after any sequence of samples the flag is blocked (0) exactly
  when the two most recent samples, or more, are all at or below 28.0, and it is
  clear (1) otherwise. A sample of exactly 28.0 counts towards blocking and does not
  clear the flag. This holds whatever the conversion to the C float does to the stored
  copy of the sample.
\<close>

theorem us_flag_hysteresis:
  "ultrasonic_is_clear (snd (set_us_flag c_float samples rpi_init)) =
     (if 2 \<le> recent_close samples then 0 else 1)"
  using set_us_flag_run [of c_float samples] by simp

text \<open>
  C2 as stated fails at the threshold: two samples of exactly 28.0, none of them below
  the threshold, block the flag, and a sample of exactly 28.0 does not clear a blocked
  flag. (The samples 28 and 10 are C floats as they are, so the conversion keeps them.)
\<close>

theorem us_flag_threshold_counterexample:
  "ultrasonic_is_clear (snd (set_us_flag (\<lambda>r. r) [28, 28] rpi_init)) = 0 \<and>
   ultrasonic_is_clear (snd (set_us_flag (\<lambda>r. r) [10, 10, 28] rpi_init)) = 0"
  by (simp add: set_us_flag_def set_us_flag_iter_def rpi_init_def)

subsection \<open>The script of the first obstacle\<close>

text \<open>
  C3: for every classification value, after \<^verbatim>\<open>clear_first_obstacle\<close> the command queue
  holds exactly the script of the branch: the mirrored script for "39", and the script of
  "38" for "38" and for every other value.
\<close>

theorem clear_first_obstacle_script:
  "command_queue (clear_first_obstacle v s) =
     (if v = JStr ''39'' then [''FL30'', ''FR30'', ''FR30'', ''FL30'']
      else [''FR30'', ''FL30'', ''FL30'', ''FR30''])"
  by (simp add: clear_first_obstacle_def clear_queues_def command_put_def)

subsection \<open>One command in flight, in the order of the queue\<close>





























subsection \<open>The end-of-path marker\<close>

lemma dispatch_fin:
  "movement_lock s \<Longrightarrow>
   command_follower_dispatch ''FIN'' s =
     Inr (action_put (PiAction ''stitch'' [])
           (android_put (AndroidMessage ''status'' (Text ''finished''))
             (android_put (AndroidMessage ''info'' (Text ''Commands queue finished.''))
               (log_msg INFO ''Commands queue finished.''
                 ((stm_send ''ZZ01'' s)\<lparr>unpause := False, movement_lock := False\<rparr>)))))"
  by (simp add: command_follower_dispatch_def is_stm32_def stm32_prefixes_def lock_release_def
      stm_send_def)

text \<open>
  What the "FIN" branch does with the lock held: it sends "ZZ01", clears the unpause
  event, releases the lock, tells the operator that the queue is finished and emits a
  stitch action; the sequencer goes back to waiting on the queue, and a command \<open>c\<close>
  enqueued afterwards is retrieved as soon as it is at the head of the queue.
\<close>

lemma fin_branch:
  assumes "follower y = Holding ''FIN''" and "movement_lock (shared y)"
  shows "\<exists>y1 y2. step FollowerDispatch y = Some y1 \<and>
           stm_sent (shared y1) = stm_sent (shared y) @ [''ZZ01''] \<and>
           unpause (shared y1) = False \<and> movement_lock (shared y1) = False \<and>
           rpi_action_queue (shared y1) = rpi_action_queue (shared y) @ [PiAction ''stitch'' []] \<and>
           android_queue (shared y1) =
             android_queue (shared y) @
               [AndroidMessage ''info'' (Text ''Commands queue finished.''),
                AndroidMessage ''status'' (Text ''finished'')] \<and>
           follower y1 = Waiting \<and>
           run [Put c, FollowerGet] y1 = Some y2 \<and>
           unpause (shared y2) = False \<and>
           follower y2 = Fetched (hd (command_queue (shared y) @ [c]))"
  using assms
  by (cases "command_queue (shared y)")
     (simp_all add: dispatch_fin action_put_def android_put_def log_msg_def stm_send_def
       command_put_def)

text \<open>
  C5 at "FIN" followed by "FW10": the branch clears the unpause event, whose purpose by
  the comments of the code is that no new command is retrieved from the queue, but
  \<^verbatim>\<open>command_follower\<close> does not wait for the event (the call is commented out): "FW10" is
  retrieved all the same and forwarded to the controller.
\<close>

theorem fin_gate_counterexample:
  "map_option (\<lambda>y. (unpause (shared y), stm_sent (shared y)))
     (run [Put ''FIN'', FollowerGet, FollowerAcquire, FollowerDispatch,
           Put ''FW10'', FollowerGet, FollowerAcquire, FollowerDispatch] system_init) =
     Some (False, [''ZZ01'', ''FW10''])"
  by (simp add: system_init_def rpi_init_def command_put_def action_put_def
      command_follower_dispatch_def is_stm32_def stm32_prefixes_def stm_send_def
      lock_release_def log_msg_def android_put_def)

subsection \<open>Commands outside the vocabulary\<close>

lemma step_terminated:
  "follower y = Terminated x \<Longrightarrow> step e y = Some y' \<Longrightarrow> follower y' = Terminated x"
  by (cases e) (auto split: if_splits sum.splits prod.splits option.splits)

lemma run_terminated:
  "follower y = Terminated x \<Longrightarrow> run es y = Some y' \<Longrightarrow> follower y' = Terminated x"
proof (induction es arbitrary: y)
  case Nil
  then show ?case by simp
next
  case (Cons e es)
  then show ?case by (auto split: option.splits dest: step_terminated)
qed

text \<open>
  C6: for a command outside the vocabulary the branches raise
  \<^verbatim>\<open>Exception("Unknown command: ...")\<close> with the shared state untouched (nothing is sent,
  put on a queue or logged). The exception ends the sequencer: none of its steps is
  possible afterwards, and it stays ended whatever the other processes do.
\<close>

theorem unknown_command_terminates:
  assumes "\<not> in_vocabulary c" and "follower y = Holding c"
  shows "command_follower_dispatch c s = Inl (Exception (''Unknown command: '' @ c), s) \<and>
         (\<exists>y1. step FollowerDispatch y = Some y1 \<and>
            follower y1 = Terminated (Exception (''Unknown command: '' @ c)) \<and>
            shared y1 = shared y \<and> unacked y1 = unacked y \<and>
            step FollowerGet y1 = None \<and> step FollowerAcquire y1 = None \<and>
            step FollowerDispatch y1 = None \<and>
            (\<forall>es y2. run es y1 = Some y2 \<longrightarrow>
               follower y2 = Terminated (Exception (''Unknown command: '' @ c))))"
proof -
  from assms(1) have d: "\<And>t. command_follower_dispatch c t =
      Inl (Exception (''Unknown command: '' @ c), t)"
    by (simp add: in_vocabulary_def command_follower_dispatch_def)
  let ?y1 = "y\<lparr>shared := shared y,
                follower := Terminated (Exception (''Unknown command: '' @ c)),
                handled := handled y @ [c]\<rparr>"
  have "step FollowerDispatch y = Some ?y1" using assms(2) d by simp
  moreover have "\<forall>es y2. run es ?y1 = Some y2 \<longrightarrow>
      follower y2 = Terminated (Exception (''Unknown command: '' @ c))"
    using run_terminated [of ?y1] by simp
  moreover have "unacked ?y1 = unacked y" by (simp add: unacked_def)
  ultimately show ?thesis using d by simp
qed

theorem unknown_command_terminates_witness:
  "\<not> in_vocabulary ''XY12'' \<and>
   follower (system_init\<lparr>follower := Holding ''XY12''\<rparr>) = Holding ''XY12'' \<and>
   command_follower_dispatch ''XY12'' rpi_init =
     Inl (Exception ''Unknown command: XY12'', rpi_init) \<and>
   (\<exists>y1. step FollowerDispatch (system_init\<lparr>follower := Holding ''XY12''\<rparr>) = Some y1 \<and>
      follower y1 = Terminated (Exception ''Unknown command: XY12'') \<and>
      shared y1 = rpi_init \<and> step FollowerGet y1 = None)"
proof -
  have a: "\<not> in_vocabulary ''XY12''"
    by (simp add: in_vocabulary_def is_stm32_def stm32_prefixes_def)
  have b: "follower (system_init\<lparr>follower := Holding ''XY12''\<rparr>) = Holding ''XY12''"
    by simp
  from unknown_command_terminates [OF a b, of rpi_init] a b show ?thesis
    by (auto simp add: system_init_def)
qed

subsection \<open>Releasing a lock that is not held\<close>

text \<open>
  C7 at the unguarded release of the "NOOP" branch: the sequencer has taken "NOOP" and
  acquired the lock, a mode change releases the lock, and the release of the branch raises
  \<^verbatim>\<open>RuntimeError\<close>, which ends the sequencer. (In \<^verbatim>\<open>change_mode\<close> and \<^verbatim>\<open>recv_stm\<close> the
  release stands in a \<^verbatim>\<open>try\<close> block.)
\<close>

theorem noop_double_release_ends_sequencer:
  "map_option follower
     (run [Put ''NOOP'', FollowerGet, FollowerAcquire,
           PutAction (PiAction ''mode'' ''path''), RpiAction 200,
           FollowerDispatch] system_init) =
     Some (Terminated (RuntimeError ''release unlocked lock''))"
  by (simp add: system_init_def rpi_init_def command_put_def action_put_def
      command_follower_dispatch_def is_stm32_def stm32_prefixes_def stm_send_def
      rpi_action_iter_def change_mode_def clear_queues_def lock_release_def log_msg_def
      android_put_def Let_def)

lemma guarded_release_sites:
  "\<not> movement_lock s \<Longrightarrow> prefix ''ACK'' m \<Longrightarrow>
     recv_stm_iter m s = Inr (log_msg WARNING ''Tried to release a released lock!'' s)"
  "\<not> movement_lock s \<Longrightarrow> \<not> (v = ''manual'' \<and> robot_mode s = 0) \<Longrightarrow>
   \<not> (v = ''path'' \<and> robot_mode s = 1) \<Longrightarrow>
     (WARNING, ''Tried to release a released lock!'') \<in> set (logged (change_mode v s))"
  by (auto simp add: recv_stm_iter_def recv_stm_ack_def change_mode_def lock_release_def
      clear_queues_def log_msg_def android_put_def stm_send_def Let_def)

subsection \<open>Snap actions\<close>

lemma snap_not_stm32: "prefix ''SNAP'' c \<Longrightarrow> \<not> is_stm32 c \<and> \<not> prefix ''WN'' c"
  by (auto simp add: is_stm32_def stm32_prefixes_def prefix_def)

lemma mansnap_not_stm32:
  "prefix ''MANSNAP'' c \<Longrightarrow> \<not> is_stm32 c \<and> \<not> prefix ''WN'' c \<and> \<not> prefix ''SNAP'' c"
  by (auto simp add: is_stm32_def stm32_prefixes_def prefix_def)

text \<open>
  C9: the sequencer turns a command that starts with "SNAP" or "MANSNAP" into an action of
  the category "snap"; the dispatcher takes such an action from its queue, writes its
  debug line, and does nothing else: the outgoing messages, the controller link, the HTTP
  requests, the camera and every other field stay as they were.
\<close>

theorem snap_action_discarded:
  "(prefix ''SNAP'' c \<longrightarrow>
      command_follower_dispatch c s =
        Inr (action_put (PiAction ''snap'' (remove_substr ''SNAP'' c)) s)) \<and>
   (prefix ''MANSNAP'' c \<longrightarrow>
      command_follower_dispatch c s = Inr (action_put (PiAction ''snap'' ''99'') s)) \<and>
   (rpi_action_queue s = PiAction ''snap'' v # rest \<longrightarrow>
      rpi_action_iter status s =
        Some (log_msg DEBUG (''PiAction retrieved from queue: snap '' @ v)
               (s\<lparr>rpi_action_queue := rest\<rparr>)) \<and>
      (\<exists>t. rpi_action_iter status s = Some t \<and>
         android_queue t = android_queue s \<and> stm_sent t = stm_sent s \<and>
         http_requests t = http_requests s \<and> camera_captures t = camera_captures s \<and>
         command_queue t = command_queue s \<and> robot_mode t = robot_mode s))"
  using snap_not_stm32 [of c] mansnap_not_stm32 [of c]
  by (auto simp add: command_follower_dispatch_def rpi_action_iter_def log_msg_def Let_def)

theorem snap_action_discarded_witness:
  "prefix ''SNAP'' ''SNAPE'' \<and> prefix ''MANSNAP'' ''MANSNAP'' \<and>
   command_follower_dispatch ''SNAPE'' rpi_init = Inr (action_put (PiAction ''snap'' ''E'') rpi_init) \<and>
   command_follower_dispatch ''MANSNAP'' rpi_init =
     Inr (action_put (PiAction ''snap'' ''99'') rpi_init) \<and>
   rpi_action_queue (action_put (PiAction ''snap'' ''E'') rpi_init) = PiAction ''snap'' ''E'' # [] \<and>
   rpi_action_iter 200 (action_put (PiAction ''snap'' ''E'') rpi_init) =
     Some (log_msg DEBUG ''PiAction retrieved from queue: snap E'' rpi_init)"
proof -
  have a: "prefix ''SNAP'' ''SNAPE''" "prefix ''MANSNAP'' ''MANSNAP''" by simp_all
  have b: "rpi_action_queue (action_put (PiAction ''snap'' ''E'') rpi_init) =
             PiAction ''snap'' ''E'' # []"
    by (simp add: action_put_def rpi_init_def)
  have c: "(action_put (PiAction ''snap'' ''E'') rpi_init)\<lparr>rpi_action_queue := []\<rparr> = rpi_init"
    by (simp add: action_put_def rpi_init_def)
  from snap_action_discarded [of "''SNAPE''" rpi_init] a
  have 1: "command_follower_dispatch ''SNAPE'' rpi_init =
             Inr (action_put (PiAction ''snap'' ''E'') rpi_init)"
    by simp
  from snap_action_discarded [of "''MANSNAP''" rpi_init] a
  have 2: "command_follower_dispatch ''MANSNAP'' rpi_init =
             Inr (action_put (PiAction ''snap'' ''99'') rpi_init)"
    by simp
  from snap_action_discarded [of _ "action_put (PiAction ''snap'' ''E'') rpi_init" "''E''" "[]" 200] b c
  have 3: "rpi_action_iter 200 (action_put (PiAction ''snap'' ''E'') rpi_init) =
     Some (log_msg DEBUG ''PiAction retrieved from queue: snap E'' rpi_init)"
    by simp
  from a b 1 2 3 show ?thesis by simp
qed

subsection \<open>An acknowledgement in Path mode with no waypoint left\<close>

text \<open>
  C10: in Path mode with an empty waypoint queue, a message that starts with "ACK" leaves
  the lock free, emits no location message (the outgoing queue is unchanged), and logs the
  warning of the lock handler as the last line. When the lock was held, the release
  succeeds and it is \<^verbatim>\<open>queue.Empty\<close> that the handler catches. No exception leaves the
  pass of the listener.
\<close>

theorem ack_with_empty_path_queue:
  assumes "prefix ''ACK'' m" and "robot_mode s = 1" and "path_queue s = []"
  shows "(movement_lock s \<longrightarrow> (\<exists>t. recv_stm_ack m s = Inl (QueueEmpty, t))) \<and>
         (\<exists>t. recv_stm_iter m s = Inr t \<and>
            movement_lock t = False \<and> android_queue t = android_queue s \<and>
            path_queue t = [] \<and> robot_mode t = 1 \<and>
            logged t = logged s @
              (if movement_lock s
               then [(DEBUG, ''ACK from STM32 received, movement lock released.'')] else []) @
              [(WARNING, ''Tried to release a released lock!'')])"
  using assms
  by (auto simp add: recv_stm_iter_def recv_stm_ack_def lock_release_def log_msg_def Let_def)

theorem ack_with_empty_path_queue_witness:
  "prefix ''ACK'' ''ACK'' \<and>
   robot_mode (rpi_init\<lparr>robot_mode := 1, movement_lock := True\<rparr>) = 1 \<and>
   path_queue (rpi_init\<lparr>robot_mode := 1, movement_lock := True\<rparr>) = [] \<and>
   (\<exists>t. recv_stm_ack ''ACK'' (rpi_init\<lparr>robot_mode := 1, movement_lock := True\<rparr>) =
           Inl (QueueEmpty, t)) \<and>
   (\<exists>t. recv_stm_iter ''ACK'' (rpi_init\<lparr>robot_mode := 1, movement_lock := True\<rparr>) = Inr t \<and>
      movement_lock t = False \<and> android_queue t = [] \<and>
      logged t = [(DEBUG, ''ACK from STM32 received, movement lock released.''),
                  (WARNING, ''Tried to release a released lock!'')])"
proof -
  let ?s = "rpi_init\<lparr>robot_mode := 1, movement_lock := True\<rparr>"
  have a: "prefix ''ACK'' ''ACK''" by simp
  have b: "robot_mode ?s = 1" "path_queue ?s = []" by (simp_all add: rpi_init_def)
  have l: "movement_lock ?s" by simp
  from ack_with_empty_path_queue [OF a b] l obtain t1 t2 where
    h: "recv_stm_ack ''ACK'' ?s = Inl (QueueEmpty, t1)"
       "recv_stm_iter ''ACK'' ?s = Inr t2" "movement_lock t2 = False"
       "android_queue t2 = android_queue ?s"
       "logged t2 = logged ?s @
          (if movement_lock ?s
           then [(DEBUG, ''ACK from STM32 received, movement lock released.'')] else []) @
          [(WARNING, ''Tried to release a released lock!'')]"
    by blast
  from h(4) have q: "android_queue t2 = []" by (simp add: rpi_init_def)
  from h(5) have g: "logged t2 = [(DEBUG, ''ACK from STM32 received, movement lock released.''),
                  (WARNING, ''Tried to release a released lock!'')]"
    by (simp add: rpi_init_def)
  from h(1) have 1: "\<exists>t. recv_stm_ack ''ACK'' ?s = Inl (QueueEmpty, t)" by blast
  from h(2,3) q g have 2: "\<exists>t. recv_stm_iter ''ACK'' ?s = Inr t \<and>
      movement_lock t = False \<and> android_queue t = [] \<and>
      logged t = [(DEBUG, ''ACK from STM32 received, movement lock released.''),
                  (WARNING, ''Tried to release a released lock!'')]"
    by blast
  from a b 1 2 show ?thesis by blast
qed

subsection \<open>The gap between the obstacles\<close>

text \<open>
  C4 at five readings of 160: no sample qualifies, \<^verbatim>\<open>max\<close> is applied to the empty list, and
  the phase ends with \<^verbatim>\<open>ValueError\<close> in place of the default; the stored distance is not
  written.
\<close>

theorem fastest_car_gap_no_sample_raises:
  "fastest_car_gap (\<lambda>i. (160, 160)) rpi_init =
     Inl (ValueError ''max() arg is an empty sequence'', rpi_init)"
  by (simp add: fastest_car_gap_def gap_max_list_def py_int_def py_max_def c_int_def upt_rec)

text \<open>Scenario D of the spec: the readings 10, 160, 30, 200, 40 store 40 + 70.\<close>

lemma fastest_car_gap_scenario_D:
  "fastest_car_gap (\<lambda>i. ([10, 160, 30, 200, 40] ! i, [10, 160, 30, 200, 40] ! i)) rpi_init =
     Inr (rpi_init\<lparr>between_obstacles_ydist := 110\<rparr>)"
  by (simp add: fastest_car_gap_def gap_max_list_def py_int_def py_max_def c_int_def upt_rec)

text \<open>
  The two reads of one pass can differ: a pass that tests 100 and appends 400 stores 470,
  which \<^verbatim>\<open>return_home\<close> sends as "FW99", "FW99", "FW272".
\<close>

lemma fastest_car_gap_double_read:
  "fastest_car_gap (\<lambda>i. (100, 400)) rpi_init = Inr (rpi_init\<lparr>between_obstacles_ydist := 470\<rparr>) \<and>
   command_queue (return_home_gap (rpi_init\<lparr>between_obstacles_ydist := 470\<rparr>)) =
     [''FW99'', ''FW99'', ''FW272'']"
proof -
  have "fastest_car_gap (\<lambda>i. (100, 400)) rpi_init =
          Inr (rpi_init\<lparr>between_obstacles_ydist := 470\<rparr>)"
    by (simp add: fastest_car_gap_def gap_max_list_def py_int_def py_max_def c_int_def upt_rec)
  moreover have "command_queue (return_home_gap (rpi_init\<lparr>between_obstacles_ydist := 470\<rparr>)) =
     [''FW99'', ''FW99'', ''FW272'']"
    by code_simp
  ultimately show ?thesis by simp
qed

subsection \<open>Forward commands for a stored distance\<close>

lemma fw_command_99: "fw_command 99 = ''FW99''"
  by code_simp

lemma forward_in_chunks_queue:
  "command_queue (forward_in_chunks d s) = command_queue s @ map fw_command (fw_magnitudes d)"
  using fw_command_99
  by (simp add: forward_in_chunks_def fw_magnitudes_def command_put_def fw_command_def Let_def)

lemma fw_magnitudes_sum: "sum_list (fw_magnitudes d) = d"
  by (simp add: fw_magnitudes_def)

lemma fw_magnitudes_bound: "d \<le> 297 \<Longrightarrow> list_all (\<lambda>n. n \<le> 99) (fw_magnitudes d)"
  by (simp add: fw_magnitudes_def)

text \<open>
  The cascade caps the first two commands at 99 and puts the whole rest in the third:
  the magnitudes always sum to the distance, and all are at most 99 only up to 297.

  C8 at a crossing distance beyond that: when the left sensor reports the obstacle at
  thirteen tests in a row, \<^verbatim>\<open>move_past_obstacle_irl\<close> accumulates a lateral travel of 140,
  the crossing distance is 310, and the third forward command has the magnitude 112.
\<close>

theorem crossing_distance_counterexample:
  "(case move_past_obstacle_irl (replicate 13 0 @ [1]) rpi_init of
      Some s \<Rightarrow>
        (total_xdist s, doubled_xdist s, fw_magnitudes (doubled_xdist s),
         command_queue (clear_second_obstacle_p2_xaxis (JStr ''38'') s))
    | None \<Rightarrow> (0, 0, [], [])) =
   (140, 310, [99, 99, 112],
    replicate 14 ''FW10'' @ [''FL30'', ''FW99'', ''FW99'', ''FW112''])"
  by code_simp

end
